theory Spec2Isabelle
  imports Main
begin

section \<open>pare: a command-line client of the Condenser URL shortener\<close>

text \<open>
  The development embeds \<^verbatim>\<open>pare.go\<close>: the three command handlers \<^verbatim>\<open>shorten\<close>,
  \<^verbatim>\<open>rm\<close> and \<^verbatim>\<open>meta\<close>, the round trip \<^verbatim>\<open>doRequest\<close>, the configuration
  resolver \<^verbatim>\<open>serverDetails\<close>, the request builder \<^verbatim>\<open>makeRequest\<close> and the
  helpers \<^verbatim>\<open>debug\<close> and \<^verbatim>\<open>errPrintf\<close>. Go strings are byte strings and are
  modelled by \<^typ>\<open>string\<close>, a list of 8-bit characters.

  What the program takes from its libraries is modelled in two ways. The JSON encoding and
  decoding of the structs whose members are all strings (package \<^verbatim>\<open>encoding/json\<close>)
  is written out, following the package's documented behaviour. Everything else (the
  operating system, the HTTP transport, package \<^verbatim>\<open>time\<close>, the formatting verbs of
  package \<^verbatim>\<open>fmt\<close>) is a parameter: a field of the environment record, or an
  uninterpreted format string kept together with its arguments.
\<close>

subsection \<open>UTF-8, as package \<^verbatim>\<open>unicode/utf8\<close> decodes it\<close>

definition byte :: "char \<Rightarrow> nat" where
  "byte c = of_char c"

definition between :: "nat \<Rightarrow> nat \<Rightarrow> char \<Rightarrow> bool" where
  "between lo hi c \<longleftrightarrow> lo \<le> byte c \<and> byte c \<le> hi"

text \<open>
  \<open>tail_ok lo hi n cs\<close>: \<open>cs\<close> starts with \<open>n\<close> bytes that continue a multi-byte
  encoding, the first of them in the range \<open>lo..hi\<close> that the leading byte allows.
\<close>

fun tail_ok :: "nat \<Rightarrow> nat \<Rightarrow> nat \<Rightarrow> string \<Rightarrow> bool" where
  "tail_ok lo hi 0 cs = True"
| "tail_ok lo hi (Suc n) [] = False"
| "tail_ok lo hi (Suc n) (c # cs) = (between lo hi c \<and> tail_ok 0x80 0xBF n cs)"

text \<open>
  \<open>rune_size s\<close> is the number of bytes of the UTF-8 encoding at the head of \<open>s\<close>, and
  \<open>0\<close> where \<^verbatim>\<open>utf8.DecodeRuneInString\<close> answers \<^verbatim>\<open>(RuneError, 1)\<close>: the head is
  not the start of a well-formed encoding (overlong forms, surrogates and values above
  U+10FFFF included), or \<open>s\<close> is empty.
\<close>

definition rune_size :: "string \<Rightarrow> nat" where
  "rune_size s =
     (case s of
        [] \<Rightarrow> 0
      | c # cs \<Rightarrow>
          let b = byte c in
          if b < 0x80 then 1
          else if 0xC2 \<le> b \<and> b \<le> 0xDF then (if tail_ok 0x80 0xBF 1 cs then 2 else 0)
          else if b = 0xE0 then (if tail_ok 0xA0 0xBF 2 cs then 3 else 0)
          else if b = 0xED then (if tail_ok 0x80 0x9F 2 cs then 3 else 0)
          else if 0xE1 \<le> b \<and> b \<le> 0xEF then (if tail_ok 0x80 0xBF 2 cs then 3 else 0)
          else if b = 0xF0 then (if tail_ok 0x90 0xBF 3 cs then 4 else 0)
          else if 0xF1 \<le> b \<and> b \<le> 0xF3 then (if tail_ok 0x80 0xBF 3 cs then 4 else 0)
          else if b = 0xF4 then (if tail_ok 0x80 0x8F 3 cs then 4 else 0)
          else 0)"

text \<open>The encoding of U+FFFD, the replacement character.\<close>

definition replacement :: string where
  "replacement = [CHR 0xEF, CHR 0xBF, CHR 0xBD]"

subsection \<open>The data model of \<^verbatim>\<open>pare.go\<close>\<close>

text \<open>
  The structs of the program. Two structs of the source have a member \<^verbatim>\<open>Code\<close> and two
  a member \<^verbatim>\<open>Meta\<close>; the members of the response structs carry the suffix \<open>_r\<close>.
\<close>

record Config =
  APIKey :: string
  Server :: string

record ShortenRequest =
  Url :: string
  Shortcode :: string
  Meta :: string

record ShortenResponse =
  ShortUrl :: string

record DeleteRequest =
  Code :: string

record DeleteResponse =
  Code_r :: string
  Status :: string

text \<open>\<^verbatim>\<open>time.Time\<close> is the type parameter \<open>'t\<close>.\<close>

record 't LinkMetadata =
  Owner :: string
  Time :: 't
  UserMeta :: string

record 't MetaResponse =
  FullUrl :: string
  Meta_r :: "'t LinkMetadata"

text \<open>
  A \<^verbatim>\<open>*url.URL\<close> as the flag parser hands it over. The program only ever calls its
  \<^verbatim>\<open>String\<close> method, so a URL is modelled by the text that method returns.
\<close>

datatype url = URL string

fun url_String :: "url \<Rightarrow> string" where
  "url_String (URL s) = s"

text \<open>
  The flags and arguments, after the command line has been parsed. \<^verbatim>\<open>serverFlag\<close>
  points to a \<^verbatim>\<open>*url.URL\<close> that is \<^verbatim>\<open>nil\<close> (\<open>None\<close>) unless the flag was given.
\<close>

record flags =
  debugFlag :: bool
  serverFlag :: "url option"
  apiKeyFlag :: string
  shortcodeArg :: string
  metaArg :: string
  shortenUrlArg :: url
  rmShortcodeArg :: string
  failNoexistArg :: bool
  metaJsonOut :: bool
  metaCodeArg :: string

datatype command = CmdShorten | CmdDelete | CmdMeta

record request =
  Method :: string
  RequestURL :: string
  Header :: "(string \<times> string list) list"
  RequestBody :: string
  Close :: bool

text \<open>
  A value handed to a formatting function of package \<^verbatim>\<open>fmt\<close> on the diagnostic
  stream. The verbs are not interpreted: a diagnostic is its format and its arguments.
\<close>

datatype dval =
    DStr string
  | DInt int
  | DUrl url
  | DConfig Config
  | DRequest request
  | DSlice "dval list"

datatype error =
    SyntaxError
  | UnmarshalTypeError string
  | ErrNotExist
  | LibError string
  | ErrorsNew string "dval list"

text \<open>
  The response of the transport: the status code and what \<^verbatim>\<open>ioutil.ReadAll\<close> makes of
  the body.
\<close>

record response =
  StatusCode :: int
  Body :: "error + string"

subsection \<open>JSON values and their text\<close>

datatype json =
    JNull
  | JBool bool
  | JNumber string
  | JString string
  | JArray "json list"
  | JObject "(string \<times> json) list"

definition hex_digit :: "nat \<Rightarrow> char" where
  "hex_digit n = ''0123456789abcdef'' ! (n mod 16)"

text \<open>
  The body of a JSON string literal as \<^verbatim>\<open>json.Marshal\<close> writes it (HTML escaping on,
  the default). Printable ASCII is copied, except the double quote and the backslash,
  which get a backslash in front, and \<^verbatim>\<open><\<close>, \<^verbatim>\<open>>\<close>, \<^verbatim>\<open>&\<close>, which are written
  as a backslash, \<^verbatim>\<open>u00\<close> and two hexadecimal digits, like the control characters other
  than newline, carriage return and tab. A byte that does not start a well-formed UTF-8
  encoding is written as the escape of U+FFFD; U+2028 and U+2029 are written as their
  escapes; every other encoding is copied. (Since Go 1.22 backspace and form feed are
  written with their short escapes; the older form is modelled.)
\<close>

definition escape_ascii :: "char \<Rightarrow> string" where
  "escape_ascii c =
     (if c = CHR 0x22 \<or> c = CHR 0x5C then [CHR 0x5C, c]
      else if c = CHR 0x0A then [CHR 0x5C, CHR ''n'']
      else if c = CHR 0x0D then [CHR 0x5C, CHR ''r'']
      else if c = CHR 0x09 then [CHR 0x5C, CHR ''t'']
      else if byte c < 0x20 \<or> c = CHR ''<'' \<or> c = CHR ''>'' \<or> c = CHR ''&''
        then [CHR 0x5C, CHR ''u'', CHR ''0'', CHR ''0'',
              hex_digit (byte c div 16), hex_digit (byte c mod 16)]
      else [c])"

fun escape :: "string \<Rightarrow> string" where
  "escape [] = []"
| "escape (c # cs) =
     (if byte c < 0x80 then escape_ascii c @ escape cs
      else if rune_size (c # cs) = 0
        then [CHR 0x5C, CHR ''u'', CHR ''f'', CHR ''f'', CHR ''f'', CHR ''d''] @ escape cs
      else if take 3 (c # cs) = [CHR 0xE2, CHR 0x80, CHR 0xA8]
        then [CHR 0x5C, CHR ''u'', CHR ''2'', CHR ''0'', CHR ''2'', CHR ''8''] @ escape (drop 2 cs)
      else if take 3 (c # cs) = [CHR 0xE2, CHR 0x80, CHR 0xA9]
        then [CHR 0x5C, CHR ''u'', CHR ''2'', CHR ''0'', CHR ''2'', CHR ''9''] @ escape (drop 2 cs)
      else take (rune_size (c # cs)) (c # cs) @ escape (drop (rune_size (c # cs) - 1) cs))"

definition quote :: "string \<Rightarrow> string" where
  "quote s = [CHR 0x22] @ escape s @ [CHR 0x22]"

text \<open>
  The compact text of an object whose members are all strings, as \<^verbatim>\<open>json.Marshal\<close>
  writes a struct: the members in order, separated by commas, no white space.
\<close>

fun members_text :: "(string \<times> string) list \<Rightarrow> string" where
  "members_text [] = []"
| "members_text [(k, v)] = quote k @ '':'' @ quote v"
| "members_text ((k, v) # m # ms) = quote k @ '':'' @ quote v @ '','' @ members_text (m # ms)"

definition object_text :: "(string \<times> string) list \<Rightarrow> string" where
  "object_text ms = ''{'' @ members_text ms @ ''}''"

subsection \<open>Reading JSON text\<close>

datatype token =
  TLBrace | TRBrace | TLBrack | TRBrack | TColon | TComma
  | TStr string | TNum string | TTrue | TFalse | TNull

definition hex_value :: "char \<Rightarrow> nat option" where
  "hex_value c =
     (if between 0x30 0x39 c then Some (byte c - 0x30)
      else if between 0x61 0x66 c then Some (byte c - 0x61 + 10)
      else if between 0x41 0x46 c then Some (byte c - 0x41 + 10)
      else None)"

fun getu4 :: "string \<Rightarrow> nat option" where
  "getu4 (b # u # h1 # h2 # h3 # h4 # _) =
     (if b = CHR 0x5C \<and> u = CHR ''u'' then
        (case (hex_value h1, hex_value h2, hex_value h3, hex_value h4) of
           (Some a, Some b, Some c, Some d) \<Rightarrow> Some (((a * 16 + b) * 16 + c) * 16 + d)
         | _ \<Rightarrow> None)
      else None)"
| "getu4 _ = None"

definition encode_rune :: "nat \<Rightarrow> string" where
  "encode_rune r =
     (if r < 0x80 then [char_of r]
      else if r < 0x800 then [char_of (0xC0 + r div 64), char_of (0x80 + r mod 64)]
      else if (0xD800 \<le> r \<and> r \<le> 0xDFFF) \<or> 0x10FFFF < r then replacement
      else if r < 0x10000 then
        [char_of (0xE0 + r div 4096), char_of (0x80 + r div 64 mod 64), char_of (0x80 + r mod 64)]
      else
        [char_of (0xF0 + r div 262144), char_of (0x80 + r div 4096 mod 64),
         char_of (0x80 + r div 64 mod 64), char_of (0x80 + r mod 64)])"

definition simple_escape :: "char \<Rightarrow> char option" where
  "simple_escape e =
     (if e = CHR 0x22 \<or> e = CHR 0x5C \<or> e = CHR ''/'' then Some e
      else if e = CHR ''b'' then Some (CHR 0x08)
      else if e = CHR ''f'' then Some (CHR 0x0C)
      else if e = CHR ''n'' then Some (CHR 0x0A)
      else if e = CHR ''r'' then Some (CHR 0x0D)
      else if e = CHR ''t'' then Some (CHR 0x09)
      else None)"

definition number_char :: "char \<Rightarrow> bool" where
  "number_char c \<longleftrightarrow> between 0x30 0x39 c \<or> c \<in> set ''+-.eE''"

definition digit :: "char \<Rightarrow> bool" where
  "digit c \<longleftrightarrow> between 0x30 0x39 c"

definition valid_exponent :: "string \<Rightarrow> bool" where
  "valid_exponent s =
     (case s of
        [] \<Rightarrow> True
      | e # r \<Rightarrow>
          (e = CHR ''e'' \<or> e = CHR ''E'') \<and>
          (let ds = (case r of [] \<Rightarrow> [] | g # r' \<Rightarrow> if g = CHR ''+'' \<or> g = CHR ''-'' then r' else r)
           in ds \<noteq> [] \<and> list_all digit ds))"

definition valid_fraction :: "string \<Rightarrow> bool" where
  "valid_fraction s =
     (case s of
        p # d # r \<Rightarrow>
          if p = CHR ''.'' then digit d \<and> valid_exponent (dropWhile digit r)
          else valid_exponent s
      | _ \<Rightarrow> valid_exponent s)"

definition valid_number :: "string \<Rightarrow> bool" where
  "valid_number s =
     (case (case s of [] \<Rightarrow> [] | m # r \<Rightarrow> if m = CHR ''-'' then r else s) of
        [] \<Rightarrow> False
      | d # r \<Rightarrow>
          if d = CHR ''0'' then valid_fraction r
          else digit d \<and> valid_fraction (dropWhile digit r))"

datatype mode = Out | Str string nat | Num string

definition white :: "char \<Rightarrow> bool" where
  "white c \<longleftrightarrow> c = CHR '' '' \<or> c = CHR 0x09 \<or> c = CHR 0x0D \<or> c = CHR 0x0A"

definition punct :: "char \<Rightarrow> token option" where
  "punct c =
     (if c = CHR ''{'' then Some TLBrace else if c = CHR ''}'' then Some TRBrace
      else if c = CHR ''['' then Some TLBrack else if c = CHR '']'' then Some TRBrack
      else if c = CHR '':'' then Some TColon else if c = CHR '','' then Some TComma
      else None)"

definition cons_token :: "token \<Rightarrow> token list option \<Rightarrow> token list option" where
  "cons_token t r = map_option (\<lambda>ts. t # ts) r"

function scan :: "mode \<Rightarrow> string \<Rightarrow> token list option" where
  "scan Out [] = Some []"
| "scan (Str acc k) [] = None"
| "scan (Num acc) [] = (if valid_number acc then Some [TNum acc] else None)"
| "scan (Num acc) (c # cs) =
     (if number_char c then scan (Num (acc @ [c])) cs
      else if valid_number acc then cons_token (TNum acc) (scan Out (c # cs))
      else None)"
| "scan (Str acc (Suc k)) (c # cs) = scan (Str (acc @ [c]) k) cs"
| "scan (Str acc 0) (c # cs) =
     (if c = CHR 0x22 then cons_token (TStr acc) (scan Out cs)
      else if c = CHR 0x5C then
        (case cs of
           [] \<Rightarrow> None
         | e # cs' \<Rightarrow>
             if e = CHR ''u'' then
               (case getu4 (c # cs) of
                  None \<Rightarrow> None
                | Some r \<Rightarrow>
                    if 0xD800 \<le> r \<and> r \<le> 0xDBFF then
                      (case getu4 (drop 5 cs) of
                         None \<Rightarrow> scan (Str (acc @ replacement) 0) (drop 5 cs)
                       | Some r2 \<Rightarrow>
                           if 0xDC00 \<le> r2 \<and> r2 \<le> 0xDFFF
                           then scan (Str (acc @ encode_rune ((r - 0xD800) * 1024 + (r2 - 0xDC00) + 0x10000)) 0)
                                  (drop 11 cs)
                           else scan (Str (acc @ replacement) 0) (drop 5 cs))
                    else scan (Str (acc @ encode_rune r) 0) (drop 5 cs))
             else
               (case simple_escape e of
                  None \<Rightarrow> None
                | Some x \<Rightarrow> scan (Str (acc @ [x]) 0) cs'))
      else if byte c < 0x20 then None
      else if byte c < 0x80 then scan (Str (acc @ [c]) 0) cs
      else if rune_size (c # cs) = 0 then scan (Str (acc @ replacement) 0) cs
      else scan (Str (acc @ [c]) (rune_size (c # cs) - 1)) cs)"
| "scan Out (c # cs) =
     (if white c then scan Out cs
      else if c = CHR 0x22 then scan (Str [] 0) cs
      else if c = CHR ''-'' \<or> digit c then scan (Num [c]) cs
      else if take 4 (c # cs) = ''true'' then cons_token TTrue (scan Out (drop 3 cs))
      else if take 5 (c # cs) = ''false'' then cons_token TFalse (scan Out (drop 4 cs))
      else if take 4 (c # cs) = ''null'' then cons_token TNull (scan Out (drop 3 cs))
      else (case punct c of None \<Rightarrow> None | Some t \<Rightarrow> cons_token t (scan Out cs)))"
  by pat_completeness auto
termination
  by (relation "measures [\<lambda>(m, s). length s, \<lambda>(m, s). (case m of Num _ \<Rightarrow> 1 | _ \<Rightarrow> 0)]") auto

datatype frame = FArr "json list" | FObj "(string \<times> json) list" string

fun pvalue :: "frame list \<Rightarrow> token list \<Rightarrow> json option"
  and pafter :: "json \<Rightarrow> frame list \<Rightarrow> token list \<Rightarrow> json option" where
  "pvalue st [] = None"
| "pvalue st (t # ts) =
     (case t of
        TStr s \<Rightarrow> pafter (JString s) st ts
      | TNum n \<Rightarrow> pafter (JNumber n) st ts
      | TTrue \<Rightarrow> pafter (JBool True) st ts
      | TFalse \<Rightarrow> pafter (JBool False) st ts
      | TNull \<Rightarrow> pafter JNull st ts
      | TLBrack \<Rightarrow>
          (case ts of
             TRBrack # ts' \<Rightarrow> pafter (JArray []) st ts'
           | _ \<Rightarrow> pvalue (FArr [] # st) ts)
      | TLBrace \<Rightarrow>
          (case ts of
             TRBrace # ts' \<Rightarrow> pafter (JObject []) st ts'
           | TStr k # TColon # ts' \<Rightarrow> pvalue (FObj [] k # st) ts'
           | _ \<Rightarrow> None)
      | _ \<Rightarrow> None)"
| "pafter v [] ts = (if ts = [] then Some v else None)"
| "pafter v (f # st) [] = None"
| "pafter v (FArr xs # st) (t # ts) =
     (case t of
        TComma \<Rightarrow> pvalue (FArr (xs @ [v]) # st) ts
      | TRBrack \<Rightarrow> pafter (JArray (xs @ [v])) st ts
      | _ \<Rightarrow> None)"
| "pafter v (FObj ms k # st) (t # ts) =
     (case t of
        TComma \<Rightarrow>
          (case ts of
             TStr k' # TColon # ts' \<Rightarrow> pvalue (FObj (ms @ [(k, v)]) k' # st) ts'
           | _ \<Rightarrow> None)
      | TRBrace \<Rightarrow> pafter (JObject (ms @ [(k, v)])) st ts
      | _ \<Rightarrow> None)"

definition json_parse :: "string \<Rightarrow> json option" where
  "json_parse s = (case scan Out s of None \<Rightarrow> None | Some ts \<Rightarrow> pvalue [] ts)"

subsection \<open>Decoding into a struct of strings\<close>

text \<open>
  \<^verbatim>\<open>json.Unmarshal\<close> finds the member of the struct for a key of the object: the member
  whose name is the key, else the first member whose name equals the key under Unicode
  simple case folding. The names here are ASCII; besides the two cases of a letter, only
  the Kelvin sign U+212A folds to \<^verbatim>\<open>k\<close> and the long s U+017F to \<^verbatim>\<open>s\<close>.
\<close>

definition lower_ascii :: "char \<Rightarrow> char" where
  "lower_ascii c = (if between 0x41 0x5A c then char_of (byte c + 32) else c)"

fun fold_key :: "string \<Rightarrow> string" where
  "fold_key [] = []"
| "fold_key (c # cs) =
     (if take 3 (c # cs) = [CHR 0xE2, CHR 0x84, CHR 0xAA] then CHR ''k'' # fold_key (drop 2 cs)
      else if take 2 (c # cs) = [CHR 0xC5, CHR 0xBF] then CHR ''s'' # fold_key (drop 1 cs)
      else lower_ascii c # fold_key cs)"

definition equal_fold :: "string \<Rightarrow> string \<Rightarrow> bool" where
  "equal_fold name key \<longleftrightarrow> fold_key name = fold_key key"

definition find_field :: "string list \<Rightarrow> string \<Rightarrow> string option" where
  "find_field names key =
     (if key \<in> set names then Some key else find (\<lambda>n. equal_fold n key) names)"

text \<open>
  The members of the object are stored in order, so the last of two equal keys wins. A
  string (\<open>Some s\<close>) or \<^verbatim>\<open>null\<close> (\<open>None\<close>) is handed to the member, a key without a
  member is skipped, and a value of any other kind is an \<^verbatim>\<open>UnmarshalTypeError\<close>: the
  first such error is kept and returned after the whole object has been decoded.
\<close>

fun store_members ::
  "string list \<Rightarrow> (string \<Rightarrow> string option \<Rightarrow> 'r \<Rightarrow> 'r) \<Rightarrow> (string \<times> json) list \<Rightarrow>
   'r \<times> error option \<Rightarrow> 'r \<times> error option" where
  "store_members names upd [] acc = acc"
| "store_members names upd ((k, v) # ms) (r, e) =
     store_members names upd ms
       (case find_field names k of
          None \<Rightarrow> (r, e)
        | Some f \<Rightarrow>
            (case v of
               JString s \<Rightarrow> (upd f (Some s) r, e)
             | JNull \<Rightarrow> (upd f None r, e)
             | _ \<Rightarrow> (r, case e of None \<Rightarrow> Some (UnmarshalTypeError f) | Some x \<Rightarrow> Some x)))"

definition unmarshal_struct ::
  "string list \<Rightarrow> (string \<Rightarrow> string option \<Rightarrow> 'r \<Rightarrow> 'r) \<Rightarrow> string \<Rightarrow> 'r \<Rightarrow>
   error + 'r" where
  "unmarshal_struct names upd text r =
     (case json_parse text of
        None \<Rightarrow> Inl SyntaxError
      | Some JNull \<Rightarrow> Inr r
      | Some (JObject ms) \<Rightarrow>
          (case store_members names upd ms (r, None) of
             (r', None) \<Rightarrow> Inr r'
           | (r', Some e) \<Rightarrow> Inl e)
      | Some _ \<Rightarrow> Inl (UnmarshalTypeError []))"

text \<open>
  A member of type \<^verbatim>\<open>string\<close> takes a string and is left as it is by \<^verbatim>\<open>null\<close>. A
  member of type \<^verbatim>\<open>*string\<close> takes both: \<^verbatim>\<open>null\<close> makes it \<^verbatim>\<open>nil\<close>.
\<close>

definition string_member :: "(string \<Rightarrow> 'r \<Rightarrow> 'r) \<Rightarrow> string option \<Rightarrow> 'r \<Rightarrow> 'r" where
  "string_member store v r = (case v of None \<Rightarrow> r | Some s \<Rightarrow> store s r)"

subsection \<open>The JSON form of the program's structs\<close>

text \<open>
  \<^verbatim>\<open>json.Marshal\<close> of a \<^verbatim>\<open>ShortenRequest\<close>. The tags of the struct are
  \<^verbatim>\<open>json:"url"\<close>, \<^verbatim>\<open>json:"code,omitempty"\<close> and \<^verbatim>\<open>json:"meta,omitempty"\<close>: a member
  tagged \<^verbatim>\<open>omitempty\<close> is left out when it is the empty string.
\<close>

definition ShortenRequest_members :: "ShortenRequest \<Rightarrow> (string \<times> string) list" where
  "ShortenRequest_members r =
     [(''url'', Url r)]
     @ (if Shortcode r = [] then [] else [(''code'', Shortcode r)])
     @ (if Meta r = [] then [] else [(''meta'', Meta r)])"

definition Marshal_ShortenRequest :: "ShortenRequest \<Rightarrow> error + string" where
  "Marshal_ShortenRequest r = Inr (object_text (ShortenRequest_members r))"

definition Marshal_DeleteRequest :: "DeleteRequest \<Rightarrow> error + string" where
  "Marshal_DeleteRequest r = Inr (object_text [(''code'', Code r)])"

text \<open>\<^verbatim>\<open>json.Marshal(Empty{})\<close>, the body of the request of \<^verbatim>\<open>meta\<close>.\<close>

definition Marshal_Empty :: "error + string" where
  "Marshal_Empty = Inr (object_text [])"

text \<open>\<^verbatim>\<open>json.Unmarshal\<close> into each struct of strings.\<close>

definition Unmarshal_Config :: "string \<Rightarrow> Config \<Rightarrow> error + Config" where
  "Unmarshal_Config =
     unmarshal_struct [''APIKey'', ''Server'']
       (\<lambda>f. string_member (\<lambda>s r. if f = ''APIKey'' then r\<lparr>APIKey := s\<rparr> else r\<lparr>Server := s\<rparr>))"

definition Unmarshal_ShortenRequest :: "string \<Rightarrow> ShortenRequest \<Rightarrow> error + ShortenRequest" where
  "Unmarshal_ShortenRequest =
     unmarshal_struct [''url'', ''code'', ''meta'']
       (\<lambda>f. string_member (\<lambda>s r. if f = ''url'' then r\<lparr>Url := s\<rparr>
                else if f = ''code'' then r\<lparr>Shortcode := s\<rparr> else r\<lparr>Meta := s\<rparr>))"

definition Unmarshal_ShortenResponse :: "string \<Rightarrow> ShortenResponse \<Rightarrow> error + ShortenResponse" where
  "Unmarshal_ShortenResponse =
     unmarshal_struct [''short_url''] (\<lambda>f. string_member (\<lambda>s r. r\<lparr>ShortUrl := s\<rparr>))"

definition Unmarshal_DeleteResponse :: "string \<Rightarrow> DeleteResponse \<Rightarrow> error + DeleteResponse" where
  "Unmarshal_DeleteResponse =
     unmarshal_struct [''code'', ''status'']
       (\<lambda>f. string_member (\<lambda>s r. if f = ''code'' then r\<lparr>Code_r := s\<rparr> else r\<lparr>Status := s\<rparr>))"

subsection \<open>The earlier declaration of \<^verbatim>\<open>ShortenRequest\<close>\<close>

text \<open>
  The other version of the program in the repository declares the optional members of
  the request as pointers, with the tags \<^verbatim>\<open>json:"code"\<close> and \<^verbatim>\<open>json:"meta"\<close> and no
  \<^verbatim>\<open>omitempty\<close>:
  \<^verbatim>\<open>Url string; Shortcode *string; Meta *string\<close>.
  A \<^verbatim>\<open>nil\<close> pointer (\<open>None\<close>) is written as \<^verbatim>\<open>null\<close>, a pointer to a string as that
  string, and all three members are always written.
\<close>

record ShortenRequest_v0 =
  Url_v0 :: string
  Shortcode_v0 :: "string option"
  Meta_v0 :: "string option"

definition pointer_text :: "string option \<Rightarrow> string" where
  "pointer_text p = (case p of None \<Rightarrow> ''null'' | Some s \<Rightarrow> quote s)"

definition Marshal_ShortenRequest_v0 :: "ShortenRequest_v0 \<Rightarrow> error + string" where
  "Marshal_ShortenRequest_v0 r =
     Inr (''{'' @ quote ''url'' @ '':'' @ quote (Url_v0 r)
          @ '','' @ quote ''code'' @ '':'' @ pointer_text (Shortcode_v0 r)
          @ '','' @ quote ''meta'' @ '':'' @ pointer_text (Meta_v0 r) @ ''}'')"

definition Unmarshal_ShortenRequest_v0 ::
  "string \<Rightarrow> ShortenRequest_v0 \<Rightarrow> error + ShortenRequest_v0" where
  "Unmarshal_ShortenRequest_v0 =
     unmarshal_struct [''url'', ''code'', ''meta'']
       (\<lambda>f v r. if f = ''url'' then string_member (\<lambda>s r. r\<lparr>Url_v0 := s\<rparr>) v r
                else if f = ''code'' then r\<lparr>Shortcode_v0 := v\<rparr> else r\<lparr>Meta_v0 := v\<rparr>)"

subsection \<open>Effects: a trace of events and an exit code\<close>

text \<open>
  What a run does is the list of its events, in order: a write on the standard output
  (the text written), a call of \<^verbatim>\<open>fmt.Fprintf\<close> on the standard error (format and
  arguments), an error reported by \<^verbatim>\<open>kingpin\<close> on the standard error, and the two library
  calls some properties are about, \<^verbatim>\<open>client.Do\<close> and \<^verbatim>\<open>json.Unmarshal\<close> of a
  response body.
\<close>

datatype event =
    Stdout string
  | Stderr string "dval list"
  | KingpinError string error
  | KingpinErrorf string "dval list"
  | CallDo request
  | CallUnmarshal string

text \<open>
  A procedure returns its events and either an exit code (\<open>Inl\<close>: the process has been
  terminated by \<^verbatim>\<open>os.Exit\<close>) or a value.
\<close>

type_synonym 'a proc = "event list \<times> (int + 'a)"

definition ret :: "'a \<Rightarrow> 'a proc" where
  "ret x = ([], Inr x)"

definition seq :: "'a proc \<Rightarrow> ('a \<Rightarrow> 'b proc) \<Rightarrow> 'b proc" where
  "seq m f =
     (case m of
        (t, Inl c) \<Rightarrow> (t, Inl c)
      | (t, Inr x) \<Rightarrow> (case f x of (t', r) \<Rightarrow> (t @ t', r)))"

definition emit :: "event \<Rightarrow> unit proc" where
  "emit e = ([e], Inr ())"

definition os_Exit :: "int \<Rightarrow> 'a proc" where
  "os_Exit c = ([], Inl c)"

text \<open>
  \<^verbatim>\<open>kingpin.FatalIfError\<close> and \<^verbatim>\<open>kingpin.Fatalf\<close> report on the standard error and
  terminate the process with exit code 1.
\<close>

definition FatalIfError :: "error \<Rightarrow> string \<Rightarrow> 'a proc" where
  "FatalIfError err format = seq (emit (KingpinError format err)) (\<lambda>_. os_Exit 1)"

definition Fatalf :: "string \<Rightarrow> dval list \<Rightarrow> 'a proc" where
  "Fatalf format args = seq (emit (KingpinErrorf format args)) (\<lambda>_. os_Exit 1)"

definition Printf :: "string \<Rightarrow> unit proc" where
  "Printf text = emit (Stdout text)"

text \<open>\<^verbatim>\<open>errPrintf\<close> appends a newline to the format and writes on the standard error.\<close>

definition errPrintf :: "string \<Rightarrow> dval list \<Rightarrow> unit proc" where
  "errPrintf fmat objs = emit (Stderr (fmat @ ''\<newline>'') objs)"

text \<open>
  \<^verbatim>\<open>debug\<close> hands its variadic arguments to \<^verbatim>\<open>errPrintf\<close> as one slice
  (\<^verbatim>\<open>errPrintf(fmat, objs)\<close>, not \<^verbatim>\<open>objs...\<close>).
\<close>

definition debug :: "flags \<Rightarrow> string \<Rightarrow> dval list \<Rightarrow> unit proc" where
  "debug fl fmat objs = (if debugFlag fl then errPrintf fmat [DSlice objs] else ret ())"

subsection \<open>The environment\<close>

text \<open>
  The operating system, the network and the libraries that are not modelled:
  \<^verbatim>\<open>user.Current\<close> (the home directory), \<^verbatim>\<open>filepath.Join\<close>, \<^verbatim>\<open>ioutil.ReadFile\<close>,
  the checks of \<^verbatim>\<open>http.NewRequest\<close> on the method and the URL, \<^verbatim>\<open>client.Do\<close>, and for
  the struct with a \<^verbatim>\<open>time.Time\<close> member its decoder, its indented encoder and the
  format \<^verbatim>\<open>time.UnixDate\<close>. \<^verbatim>\<open>Map_ToUpper\<close> is \<^verbatim>\<open>strings.Map(unicode.ToUpper, s)\<close>,
  which \<^verbatim>\<open>strings.ToUpper\<close> calls on a string that is not pure ASCII.
\<close>

record 't env =
  user_Current :: "error + string"
  filepath_Join :: "string \<Rightarrow> string \<Rightarrow> string"
  ReadFile :: "string \<Rightarrow> error + string"
  NewRequest_error :: "string \<Rightarrow> string \<Rightarrow> error option"
  client_Do :: "request \<Rightarrow> error + response"
  Unmarshal_MetaResponse :: "string \<Rightarrow> 't MetaResponse \<Rightarrow> error + 't MetaResponse"
  MarshalIndent_MetaResponse :: "'t MetaResponse \<Rightarrow> error + string"
  Format_UnixDate :: "'t \<Rightarrow> string"
  Map_ToUpper :: "string \<Rightarrow> string"
  zero_Time :: 't

definition os_IsNotExist :: "error \<Rightarrow> bool" where
  "os_IsNotExist err \<longleftrightarrow> err = ErrNotExist"

definition upper_ascii :: "char \<Rightarrow> char" where
  "upper_ascii c = (if between 0x61 0x7A c then char_of (byte c - 32) else c)"

definition strings_ToUpper :: "'t env \<Rightarrow> string \<Rightarrow> string" where
  "strings_ToUpper env s =
     (if list_all (\<lambda>c. byte c < 0x80) s then map upper_ascii s else Map_ToUpper env s)"

subsection \<open>The program\<close>

definition ShortenEndpoint :: string where
  "ShortenEndpoint = ''/api/shorten''"

definition DeleteEndpoint :: string where
  "DeleteEndpoint = ''/api/delete''"

definition MetaEndpoint :: string where
  "MetaEndpoint = ''/api/meta/''"

text \<open>
  \<^verbatim>\<open>serverDetails\<close>: the configuration file first, then the flags. A flag for the
  server overrides when its pointer is not \<^verbatim>\<open>nil\<close>, a flag for the key when it is not
  the empty string.
\<close>

definition serverDetails :: "'t env \<Rightarrow> flags \<Rightarrow> Config proc" where
  "serverDetails env fl =
     (case user_Current env of
        Inl err \<Rightarrow> FatalIfError err ''unable to get current user HOME''
      | Inr home \<Rightarrow>
          seq (case ReadFile env (filepath_Join env home ''.pare.json'') of
                 Inl err \<Rightarrow>
                   if os_IsNotExist err
                   then seq (debug fl ''~/.pare.json doesn't exist; ignoring.'' [])
                          (\<lambda>_. ret ([], []))
                   else FatalIfError err ''error opening ~/.pare.json''
               | Inr file \<Rightarrow>
                   (case Unmarshal_Config file \<lparr>APIKey = [], Server = []\<rparr> of
                      Inl err \<Rightarrow> FatalIfError err ''error parsing ~/.pare.json''
                    | Inr confJson \<Rightarrow> ret (Server confJson, APIKey confJson)))
            (\<lambda>(retUrl, apikey).
               ret \<lparr>APIKey = (if apiKeyFlag fl \<noteq> [] then apiKeyFlag fl else apikey),
                    Server = (case serverFlag fl of Some u \<Rightarrow> url_String u | None \<Rightarrow> retUrl)\<rparr>))"

definition makeRequest :: "'t env \<Rightarrow> Config \<Rightarrow> string \<Rightarrow> string \<Rightarrow> string \<Rightarrow> request proc" where
  "makeRequest env conf method endpoint body =
     (let fullUrl = Server conf @ endpoint in
      case NewRequest_error env method fullUrl of
        Some err \<Rightarrow> FatalIfError err ''error constructing request''
      | None \<Rightarrow>
          ret \<lparr>Method = method, RequestURL = fullUrl,
               Header = [(''Accept'', [''application/json'']),
                         (''Content-Type'', [''application/json'']),
                         (''X-API-Key'', [APIKey conf]),
                         (''User-Agent'', [''Pare (Go net/http)''])],
               RequestBody = body, Close = True\<rparr>)"

text \<open>
  \<^verbatim>\<open>doRequest\<close>. The body arrives as the result of \<^verbatim>\<open>json.Marshal\<close> on it, the
  target of the response as its decoder and its present value; the procedure returns
  the status code and the target. A status other than 200 returns before the body is
  read.
\<close>

definition doRequest ::
  "'t env \<Rightarrow> flags \<Rightarrow> string \<Rightarrow> string \<Rightarrow> error + string \<Rightarrow>
   (string \<Rightarrow> 'r \<Rightarrow> error + 'r) \<Rightarrow> 'r \<Rightarrow> (int \<times> 'r) proc" where
  "doRequest env fl method endpoint marshalled unmarshal response =
     seq (serverDetails env fl) (\<lambda>config.
     seq (debug fl ''config: %+v'' [DConfig config]) (\<lambda>_.
     seq (case marshalled of
            Inl err \<Rightarrow> FatalIfError err ''error creating shorten POST json''
          | Inr txBody \<Rightarrow> ret txBody) (\<lambda>txBody.
     seq (debug fl ''txBody: %v'' [DStr txBody]) (\<lambda>_.
     seq (makeRequest env config method endpoint txBody) (\<lambda>req.
     seq (debug fl ''req: %#v'' [DRequest req]) (\<lambda>_.
     seq (emit (CallDo req)) (\<lambda>_.
     case client_Do env req of
       Inl err \<Rightarrow> FatalIfError err ''error executing POST to condenser server''
     | Inr resp \<Rightarrow>
         if StatusCode resp \<noteq> 200 then ret (StatusCode resp, response)
         else
           seq (case Body resp of
                  Inl err \<Rightarrow> FatalIfError err ''error reading response''
                | Inr rxBody \<Rightarrow> ret rxBody) (\<lambda>rxBody.
           seq (debug fl ''rxBody: %v'' [DStr rxBody]) (\<lambda>_.
           seq (emit (CallUnmarshal rxBody)) (\<lambda>_.
           case unmarshal rxBody response of
             Inl err \<Rightarrow> FatalIfError err ''error parsing response''
           | Inr response' \<Rightarrow> ret (StatusCode resp, response')))))))))))"

definition shorten :: "'t env \<Rightarrow> flags \<Rightarrow> unit proc" where
  "shorten env fl =
     (let bodyStruct = \<lparr>Url = url_String (shortenUrlArg fl),
                        Shortcode = shortcodeArg fl,
                        Meta = metaArg fl\<rparr>;
          respStruct = \<lparr>ShortUrl = []\<rparr>
      in
      seq (doRequest env fl ''POST'' ShortenEndpoint (Marshal_ShortenRequest bodyStruct)
             Unmarshal_ShortenResponse respStruct) (\<lambda>(code, respStruct).
      seq (if code = 409 then seq (errPrintf ''conflict'' []) (\<lambda>_. os_Exit (- 1))
           else if code \<noteq> 200
             then FatalIfError (ErrorsNew ''unexpected response code: %v'' [DInt code])
                    ''unexpected response''
           else ret ()) (\<lambda>_.
      Printf (ShortUrl respStruct @ ''\<newline>''))))"

definition rm :: "'t env \<Rightarrow> flags \<Rightarrow> unit proc" where
  "rm env fl =
     (let bodyStruct = \<lparr>Code = rmShortcodeArg fl\<rparr>;
          respStruct = \<lparr>Code_r = [], Status = []\<rparr>
      in
      seq (doRequest env fl ''POST'' DeleteEndpoint (Marshal_DeleteRequest bodyStruct)
             Unmarshal_DeleteResponse respStruct) (\<lambda>(code, respStruct).
      seq (if code \<noteq> 200 then Fatalf ''unexpected response code: %v'' [DInt code]
           else ret ()) (\<lambda>_.
      seq (Printf (Code_r respStruct @ ''/'' @ Status respStruct @ ''\<newline>'')) (\<lambda>_.
      if failNoexistArg fl \<and> Status respStruct = ''noexist'' then os_Exit 1 else ret ()))))"

definition meta :: "'t env \<Rightarrow> flags \<Rightarrow> unit proc" where
  "meta env fl =
     (let respStruct = \<lparr>FullUrl = [],
                        Meta_r = \<lparr>Owner = [], Time = zero_Time env, UserMeta = []\<rparr>\<rparr>
      in
      seq (doRequest env fl ''GET'' (MetaEndpoint @ metaCodeArg fl) Marshal_Empty
             (Unmarshal_MetaResponse env) respStruct) (\<lambda>(code, respStruct).
      seq (if code = 404 then seq (Printf ''noexist\<newline>'') (\<lambda>_. os_Exit 1)
           else if code \<noteq> 200 then Fatalf ''unexpected response code: %v'' [DInt code]
           else ret ()) (\<lambda>_.
      if metaJsonOut fl then
        (case MarshalIndent_MetaResponse env respStruct of
           Inl err \<Rightarrow> FatalIfError err ''error marshalling to JSON''
         | Inr txt \<Rightarrow> Printf (txt @ ''\<newline>''))
      else
        seq (Printf (''Code: '' @ strings_ToUpper env (metaCodeArg fl) @ ''\<newline>'')) (\<lambda>_.
        seq (Printf (''Full URL: '' @ FullUrl respStruct @ ''\<newline>'')) (\<lambda>_.
        seq (Printf (''Owner: '' @ Owner (Meta_r respStruct) @ ''\<newline>'')) (\<lambda>_.
        seq (Printf (''Created at: '' @ Format_UnixDate env (Time (Meta_r respStruct))
                     @ ''\<newline>'')) (\<lambda>_.
        if UserMeta (Meta_r respStruct) \<noteq> []
        then Printf (''User-defined metadata: '' @ UserMeta (Meta_r respStruct) @ ''\<newline>'')
        else ret ())))))))"

text \<open>
  \<^verbatim>\<open>main\<close>, from the command that the parser of the command line has selected.
\<close>

definition main :: "'t env \<Rightarrow> flags \<Rightarrow> command \<Rightarrow> unit proc" where
  "main env fl cmd =
     (case cmd of
        CmdShorten \<Rightarrow> seq (debug fl ''shorten: %s'' [DUrl (shortenUrlArg fl)]) (\<lambda>_. shorten env fl)
      | CmdDelete \<Rightarrow> seq (debug fl ''rm: %s'' [DStr (rmShortcodeArg fl)]) (\<lambda>_. rm env fl)
      | CmdMeta \<Rightarrow> seq (debug fl ''meta: %s'' [DStr (metaCodeArg fl)]) (\<lambda>_. meta env fl))"

text \<open>
  What an observer of the process sees: the text on the standard output, the events on
  the standard error, and the exit code, which is 0 when \<^verbatim>\<open>main\<close> returns.
\<close>

fun stdout_of :: "event list \<Rightarrow> string" where
  "stdout_of [] = []"
| "stdout_of (Stdout s # es) = s @ stdout_of es"
| "stdout_of (e # es) = stdout_of es"

definition on_stderr :: "event \<Rightarrow> bool" where
  "on_stderr e = (case e of Stderr f a \<Rightarrow> True | KingpinError f x \<Rightarrow> True
                  | KingpinErrorf f a \<Rightarrow> True | _ \<Rightarrow> False)"

definition stderr_of :: "event list \<Rightarrow> event list" where
  "stderr_of es = filter on_stderr es"

definition exit_code :: "'a proc \<Rightarrow> int" where
  "exit_code p = (case snd p of Inl c \<Rightarrow> c | Inr x \<Rightarrow> 0)"

definition events :: "'a proc \<Rightarrow> event list" where
  "events p = fst p"

text \<open>The requests handed to the transport, in order.\<close>

fun requests_of :: "event list \<Rightarrow> request list" where
  "requests_of [] = []"
| "requests_of (CallDo req # es) = req # requests_of es"
| "requests_of (e # es) = requests_of es"

text \<open>\<open>contains s sub\<close>: the text \<open>sub\<close> occurs in \<open>s\<close>.\<close>

fun contains :: "string \<Rightarrow> string \<Rightarrow> bool" where
  "contains [] sub = (sub = [])"
| "contains (c # cs) sub = (take (length sub) (c # cs) = sub \<or> contains cs sub)"

subsection \<open>A concrete environment\<close>

text \<open>
  An environment to run the program in: the home directory is \<^verbatim>\<open>/home/u\<close>, the
  configuration file is given by the result of reading it, every request can be built,
  and the server is a function from the request to its response. The time is the unit
  type, and the decoder of the response of \<^verbatim>\<open>meta\<close> knows one body.
\<close>

definition example_meta :: "unit MetaResponse" where
  "example_meta =
     \<lparr>FullUrl = ''http://a.com'', Meta_r = \<lparr>Owner = ''bob'', Time = (), UserMeta = ''note''\<rparr>\<rparr>"

definition example_env :: "(error + string) \<Rightarrow> (request \<Rightarrow> error + response) \<Rightarrow> unit env" where
  "example_env file server =
     \<lparr>user_Current = Inr ''/home/u'',
      filepath_Join = (\<lambda>dir name. dir @ ''/'' @ name),
      ReadFile = (\<lambda>path. if path = ''/home/u/.pare.json'' then file else Inl ErrNotExist),
      NewRequest_error = (\<lambda>method u. None),
      client_Do = server,
      Unmarshal_MetaResponse = (\<lambda>body r. if body = ''meta'' then Inr example_meta else Inl SyntaxError),
      MarshalIndent_MetaResponse = (\<lambda>r. Inl (LibError ''unused'')),
      Format_UnixDate = (\<lambda>t. ''Thu Jan  1 00:00:00 UTC 1970''),
      Map_ToUpper = (\<lambda>s. s),
      zero_Time = ()\<rparr>"

definition example_config :: string where
  "example_config = ''{\"APIKey\":\"k1\",\"Server\":\"https://s.example\"}''"

definition example_flags :: flags where
  "example_flags =
     \<lparr>debugFlag = False, serverFlag = None, apiKeyFlag = [], shortcodeArg = [], metaArg = [],
      shortenUrlArg = URL ''http://a.com'', rmShortcodeArg = ''abc'', failNoexistArg = False,
      metaJsonOut = False, metaCodeArg = ''abc''\<rparr>"

definition example_request :: "string \<Rightarrow> string \<Rightarrow> string \<Rightarrow> request" where
  "example_request method u body =
     \<lparr>Method = method, RequestURL = u,
      Header = [(''Accept'', [''application/json'']),
                (''Content-Type'', [''application/json'']),
                (''X-API-Key'', [''k1'']),
                (''User-Agent'', [''Pare (Go net/http)''])],
      RequestBody = body, Close = True\<rparr>"

text \<open>A server that answers every request with one status and one body.\<close>

definition example_server :: "int \<Rightarrow> string \<Rightarrow> request \<Rightarrow> error + response" where
  "example_server status body req = Inr \<lparr>StatusCode = status, Body = Inr body\<rparr>"

section \<open>Properties\<close>

subsection \<open>Procedures\<close>

lemma fst_seq: "fst (seq m f) = (case snd m of Inl c \<Rightarrow> fst m | Inr x \<Rightarrow> fst m @ fst (f x))"
  by (cases m) (auto simp: seq_def split: sum.splits prod.splits)

lemma snd_seq: "snd (seq m f) = (case snd m of Inl c \<Rightarrow> Inl c | Inr x \<Rightarrow> snd (f x))"
  by (cases m) (auto simp: seq_def split: sum.splits prod.splits)

lemma proc_simps [simp]:
  "fst (ret x) = []" "snd (ret x) = Inr x"
  "fst (emit e) = [e]" "snd (emit e) = Inr ()"
  "fst (os_Exit c) = []" "snd (os_Exit c :: 'a proc) = Inl c"
  "fst (FatalIfError err f) = [KingpinError f err]" "snd (FatalIfError err f :: 'a proc) = Inl 1"
  "fst (Fatalf f a) = [KingpinErrorf f a]" "snd (Fatalf f a :: 'a proc) = Inl 1"
  "fst (Printf s) = [Stdout s]" "snd (Printf s) = Inr ()"
  "fst (errPrintf f a) = [Stderr (f @ ''\<newline>'') a]" "snd (errPrintf f a) = Inr ()"
  "fst (debug fl f a) = (if debugFlag fl then [Stderr (f @ ''\<newline>'') [DSlice a]] else [])"
  "snd (debug fl f a) = Inr ()"
  by (simp_all add: ret_def emit_def os_Exit_def FatalIfError_def Fatalf_def Printf_def
      errPrintf_def debug_def seq_def)

lemma stdout_of_append [simp]: "stdout_of (xs @ ys) = stdout_of xs @ stdout_of ys"
  by (induction xs rule: stdout_of.induct) auto

lemma requests_of_append [simp]: "requests_of (xs @ ys) = requests_of xs @ requests_of ys"
  by (induction xs rule: requests_of.induct) auto

lemma on_stderr_simps [simp]:
  "on_stderr (Stderr f a)" "on_stderr (KingpinError f x)" "on_stderr (KingpinErrorf f a)"
  "\<not> on_stderr (Stdout s)" "\<not> on_stderr (CallDo q)" "\<not> on_stderr (CallUnmarshal t)"
  by (simp_all add: on_stderr_def)

subsection \<open>The round trip\<close>

lemma serverDetails_stdout: "stdout_of (fst (serverDetails env fl)) = []"
  by (auto simp: serverDetails_def fst_seq snd_seq split: sum.splits option.splits prod.splits)

lemma serverDetails_no_call:
  "CallDo q \<notin> set (fst (serverDetails env fl))"
  "CallUnmarshal b \<notin> set (fst (serverDetails env fl))"
  by (auto simp: serverDetails_def fst_seq snd_seq
      split: sum.splits option.splits prod.splits if_splits)

lemma serverDetails_exit: "snd (serverDetails env fl) = Inl c \<Longrightarrow> c = 1"
  by (auto simp: serverDetails_def fst_seq snd_seq
      split: sum.splits option.splits prod.splits if_splits)

lemma doRequest_stdout: "stdout_of (fst (doRequest env fl m ep mar un r)) = []"
  by (auto simp: doRequest_def makeRequest_def Let_def fst_seq snd_seq serverDetails_stdout
      split: sum.splits option.splits prod.splits)

lemma doRequest_exit: "snd (doRequest env fl m ep mar un r) = Inl c \<Longrightarrow> c = 1"
  by (auto simp: doRequest_def makeRequest_def Let_def fst_seq snd_seq
      split: sum.splits option.splits prod.splits if_splits dest: serverDetails_exit)

text \<open>A status other than 200 comes back with the target untouched and nothing decoded.\<close>

lemma doRequest_not200:
  assumes "CallDo req \<in> set (fst (doRequest env fl m ep mar un r))"
    and "client_Do env req = Inr resp" and "StatusCode resp \<noteq> 200"
  shows "snd (doRequest env fl m ep mar un r) = Inr (StatusCode resp, r)"
    and "CallUnmarshal b \<notin> set (fst (doRequest env fl m ep mar un r))"
  using assms
  by (auto simp: doRequest_def makeRequest_def Let_def fst_seq snd_seq serverDetails_no_call
      split: sum.splits option.splits prod.splits if_splits)

lemma doRequest_200:
  assumes "CallDo req \<in> set (fst (doRequest env fl m ep mar un r))"
    and "client_Do env req = Inr resp" and "StatusCode resp = 200"
    and "Body resp = Inr rx" and "un rx r = Inr r'"
  shows "snd (doRequest env fl m ep mar un r) = Inr (200, r')"
  using assms
  by (auto simp: doRequest_def makeRequest_def Let_def fst_seq snd_seq serverDetails_no_call
      split: sum.splits option.splits prod.splits if_splits)

lemma serverDetails_from_file:
  assumes "user_Current env = Inr home"
    and "ReadFile env (filepath_Join env home ''.pare.json'') = Inr content"
    and "Unmarshal_Config content \<lparr>APIKey = [], Server = []\<rparr> = Inr conf"
  shows "snd (serverDetails env fl)
           = Inr \<lparr>APIKey = (if apiKeyFlag fl \<noteq> [] then apiKeyFlag fl else APIKey conf),
                  Server = (case serverFlag fl of Some u \<Rightarrow> url_String u | None \<Rightarrow> Server conf)\<rparr>"
  using assms by (simp add: serverDetails_def snd_seq)

lemma serverDetails_requests: "requests_of (fst (serverDetails env fl)) = []"
  by (auto simp: serverDetails_def fst_seq snd_seq split: sum.splits option.splits prod.splits)


subsection \<open>The handlers\<close>

lemma main_Do_meta:
  "CallDo req \<in> set (events (main env fl CmdMeta)) \<Longrightarrow>
   CallDo req \<in> set (fst (doRequest env fl ''GET'' (MetaEndpoint @ metaCodeArg fl) Marshal_Empty
     (Unmarshal_MetaResponse env)
     \<lparr>FullUrl = [], Meta_r = \<lparr>Owner = [], Time = zero_Time env, UserMeta = []\<rparr>\<rparr>))"
  by (auto simp: events_def main_def meta_def Let_def fst_seq snd_seq
      split: sum.splits prod.splits if_splits)

lemma main_Do_rm:
  "CallDo req \<in> set (events (main env fl CmdDelete)) \<Longrightarrow>
   CallDo req \<in> set (fst (doRequest env fl ''POST'' DeleteEndpoint
     (Marshal_DeleteRequest \<lparr>Code = rmShortcodeArg fl\<rparr>)
     Unmarshal_DeleteResponse \<lparr>Code_r = [], Status = []\<rparr>))"
  by (auto simp: events_def main_def rm_def Let_def fst_seq snd_seq
      split: sum.splits prod.splits if_splits)

lemma main_Do_shorten:
  "CallDo req \<in> set (events (main env fl CmdShorten)) \<Longrightarrow>
   CallDo req \<in> set (fst (doRequest env fl ''POST'' ShortenEndpoint
     (Marshal_ShortenRequest \<lparr>Url = url_String (shortenUrlArg fl),
        Shortcode = shortcodeArg fl, Meta = metaArg fl\<rparr>)
     Unmarshal_ShortenResponse \<lparr>ShortUrl = []\<rparr>))"
  by (auto simp: events_def main_def shorten_def Let_def fst_seq snd_seq
      split: sum.splits prod.splits if_splits)

text \<open>
  C6. A run of \<^verbatim>\<open>meta\<close> that sends its request and gets a response with status 404
  writes the line \<^verbatim>\<open>noexist\<close> on the standard output, nothing else, and exits with
  code 1.
\<close>

theorem meta_404:
  assumes "CallDo req \<in> set (events (main env fl CmdMeta))"
    and "client_Do env req = Inr resp" and "StatusCode resp = 404"
  shows "stdout_of (events (main env fl CmdMeta)) = ''noexist\<newline>'' \<and>
         exit_code (main env fl CmdMeta) = 1"
proof -
  let ?D = "doRequest env fl ''GET'' (MetaEndpoint @ metaCodeArg fl) Marshal_Empty
     (Unmarshal_MetaResponse env)
     \<lparr>FullUrl = [], Meta_r = \<lparr>Owner = [], Time = zero_Time env, UserMeta = []\<rparr>\<rparr>"
  have d: "CallDo req \<in> set (fst ?D)"
    using assms(1) by (rule main_Do_meta)
  have r: "snd ?D = Inr (404, \<lparr>FullUrl = [],
      Meta_r = \<lparr>Owner = [], Time = zero_Time env, UserMeta = []\<rparr>\<rparr>)"
    using doRequest_not200(1) [OF d assms(2)] assms(3) by simp
  have s: "stdout_of (fst ?D) = []"
    by (rule doRequest_stdout)
  show ?thesis
    using r s by (simp add: events_def exit_code_def main_def meta_def Let_def fst_seq snd_seq)
qed

theorem meta_404_witness:
  "CallDo (example_request ''GET'' ''https://s.example/api/meta/abc'' ''{}'')
     \<in> set (events (main (example_env (Inr example_config) (example_server 404 []))
                example_flags CmdMeta))
   \<and> stdout_of (events (main (example_env (Inr example_config) (example_server 404 []))
                example_flags CmdMeta)) = ''noexist\<newline>''
   \<and> exit_code (main (example_env (Inr example_config) (example_server 404 []))
                example_flags CmdMeta) = 1"
proof -
  have sent: "CallDo (example_request ''GET'' ''https://s.example/api/meta/abc'' ''{}'')
     \<in> set (events (main (example_env (Inr example_config) (example_server 404 []))
                example_flags CmdMeta))"
    by code_simp
  have answer: "client_Do (example_env (Inr example_config) (example_server 404 []))
       (example_request ''GET'' ''https://s.example/api/meta/abc'' ''{}'')
     = Inr \<lparr>StatusCode = 404, Body = Inr []\<rparr>"
    by (simp add: example_env_def example_server_def)
  show ?thesis
    using meta_404 [OF sent answer] sent by simp
qed

text \<open>
  C10. A run of \<^verbatim>\<open>meta\<close> without \<^verbatim>\<open>--json\<close> that gets a response with status 200
  whose body decodes to \<open>m\<close> writes exactly these lines: \<^verbatim>\<open>Code:\<close> with
  \<^verbatim>\<open>strings.ToUpper\<close> of the code that was asked for (not the code as typed, and not a
  member of the response), the full URL, the owner, the time of creation, and the line
  \<^verbatim>\<open>User-defined metadata:\<close> if and only if the user metadata of the response is not
  the empty string. On an ASCII code \<^verbatim>\<open>strings.ToUpper\<close> maps each lower-case letter to
  its capital.
\<close>

theorem meta_200_human:
  assumes "CallDo req \<in> set (events (main env fl CmdMeta))"
    and "client_Do env req = Inr resp" and "StatusCode resp = 200"
    and "Body resp = Inr rxBody"
    and "Unmarshal_MetaResponse env rxBody
           \<lparr>FullUrl = [], Meta_r = \<lparr>Owner = [], Time = zero_Time env, UserMeta = []\<rparr>\<rparr> = Inr m"
    and "\<not> metaJsonOut fl"
  shows "stdout_of (events (main env fl CmdMeta))
           = ''Code: '' @ strings_ToUpper env (metaCodeArg fl) @ ''\<newline>''
             @ ''Full URL: '' @ FullUrl m @ ''\<newline>''
             @ ''Owner: '' @ Owner (Meta_r m) @ ''\<newline>''
             @ ''Created at: '' @ Format_UnixDate env (Time (Meta_r m)) @ ''\<newline>''
             @ (if UserMeta (Meta_r m) \<noteq> []
                then ''User-defined metadata: '' @ UserMeta (Meta_r m) @ ''\<newline>'' else [])
         \<and> (list_all (\<lambda>c. byte c < 0x80) (metaCodeArg fl) \<longrightarrow>
              strings_ToUpper env (metaCodeArg fl) = map upper_ascii (metaCodeArg fl))
         \<and> exit_code (main env fl CmdMeta) = 0"
proof -
  let ?D = "doRequest env fl ''GET'' (MetaEndpoint @ metaCodeArg fl) Marshal_Empty
     (Unmarshal_MetaResponse env)
     \<lparr>FullUrl = [], Meta_r = \<lparr>Owner = [], Time = zero_Time env, UserMeta = []\<rparr>\<rparr>"
  have d: "CallDo req \<in> set (fst ?D)"
    using assms(1) by (rule main_Do_meta)
  have r: "snd ?D = Inr (200, m)"
    by (rule doRequest_200 [OF d assms(2-5)])
  have s: "stdout_of (fst ?D) = []"
    by (rule doRequest_stdout)
  show ?thesis
    using r s assms(6)
    by (simp add: events_def exit_code_def main_def meta_def Let_def fst_seq snd_seq
        strings_ToUpper_def)
qed

theorem meta_200_human_witness:
  "\<not> metaJsonOut example_flags
   \<and> list_all (\<lambda>c. byte c < 0x80) (metaCodeArg example_flags)
   \<and> stdout_of (events (main (example_env (Inr example_config) (example_server 200 ''meta''))
        example_flags CmdMeta))
      = ''Code: ABC\<newline>Full URL: http://a.com\<newline>Owner: bob\<newline>'' @
        ''Created at: Thu Jan  1 00:00:00 UTC 1970\<newline>User-defined metadata: note\<newline>''
   \<and> exit_code (main (example_env (Inr example_config) (example_server 200 ''meta''))
        example_flags CmdMeta) = 0"
proof -
  let ?env = "example_env (Inr example_config) (example_server 200 ''meta'')"
  let ?req = "example_request ''GET'' ''https://s.example/api/meta/abc'' ''{}''"
  have sent: "CallDo ?req \<in> set (events (main ?env example_flags CmdMeta))"
    by code_simp
  have answer: "client_Do ?env ?req = Inr \<lparr>StatusCode = 200, Body = Inr ''meta''\<rparr>"
    by (simp add: example_env_def example_server_def)
  have decoded: "Unmarshal_MetaResponse ?env ''meta''
      \<lparr>FullUrl = [], Meta_r = \<lparr>Owner = [], Time = zero_Time ?env, UserMeta = []\<rparr>\<rparr>
      = Inr example_meta"
    by (simp add: example_env_def)
  have human: "\<not> metaJsonOut example_flags"
    by (simp add: example_flags_def)
  have ascii: "list_all (\<lambda>c. byte c < 0x80) (metaCodeArg example_flags)"
    by code_simp
  have upper: "map upper_ascii (metaCodeArg example_flags) = ''ABC''"
    by code_simp
  have date: "Format_UnixDate ?env () = ''Thu Jan  1 00:00:00 UTC 1970''"
    by (simp add: example_env_def)
  show ?thesis
    using meta_200_human [OF sent answer _ _ decoded human] human ascii upper date
    by (simp add: example_meta_def)
qed

text \<open>
  C5. A run of \<^verbatim>\<open>delete\<close> that gets a response with status 200 whose body decodes to
  \<open>d\<close> exits with code 1 if \<^verbatim>\<open>--fail-no-exist\<close> is set and the status of \<open>d\<close> is
  \<^verbatim>\<open>noexist\<close>, and with code 0 otherwise: \<^verbatim>\<open>noexist\<close> without the flag exits 0,
  \<^verbatim>\<open>noexist\<close> with the flag exits 1, \<^verbatim>\<open>deleted\<close> exits 0 whatever the flag. The
  standard output is the line \<^verbatim>\<open>code/status\<close>.
\<close>

theorem rm_exit_code:
  assumes "CallDo req \<in> set (events (main env fl CmdDelete))"
    and "client_Do env req = Inr resp" and "StatusCode resp = 200"
    and "Body resp = Inr rxBody"
    and "Unmarshal_DeleteResponse rxBody \<lparr>Code_r = [], Status = []\<rparr> = Inr d"
  shows "exit_code (main env fl CmdDelete)
           = (if failNoexistArg fl \<and> Status d = ''noexist'' then 1 else 0)
         \<and> (Status d = ''noexist'' \<and> \<not> failNoexistArg fl \<longrightarrow> exit_code (main env fl CmdDelete) = 0)
         \<and> (Status d = ''noexist'' \<and> failNoexistArg fl \<longrightarrow> exit_code (main env fl CmdDelete) = 1)
         \<and> (Status d = ''deleted'' \<longrightarrow> exit_code (main env fl CmdDelete) = 0)
         \<and> stdout_of (events (main env fl CmdDelete)) = Code_r d @ ''/'' @ Status d @ ''\<newline>''"
proof -
  let ?D = "doRequest env fl ''POST'' DeleteEndpoint
     (Marshal_DeleteRequest \<lparr>Code = rmShortcodeArg fl\<rparr>)
     Unmarshal_DeleteResponse \<lparr>Code_r = [], Status = []\<rparr>"
  have d: "CallDo req \<in> set (fst ?D)"
    using assms(1) by (rule main_Do_rm)
  have r: "snd ?D = Inr (200, d)"
    by (rule doRequest_200 [OF d assms(2-5)])
  have s: "stdout_of (fst ?D) = []"
    by (rule doRequest_stdout)
  show ?thesis
    using r s by (simp add: events_def exit_code_def main_def rm_def Let_def fst_seq snd_seq)
qed

theorem rm_exit_code_witness:
  \<open>Status \<lparr>Code_r = ''abc'', Status = ''noexist''\<rparr> = ''noexist''
   \<and> failNoexistArg (example_flags\<lparr>failNoexistArg := True\<rparr>)
   \<and> exit_code (main (example_env (Inr example_config)
          (example_server 200 ''{"code":"abc","status":"noexist"}''))
        (example_flags\<lparr>failNoexistArg := True\<rparr>) CmdDelete) = 1
   \<and> stdout_of (events (main (example_env (Inr example_config)
          (example_server 200 ''{"code":"abc","status":"noexist"}''))
        (example_flags\<lparr>failNoexistArg := True\<rparr>) CmdDelete)) = ''abc/noexist\<newline>''\<close>
proof -
  let ?env = \<open>example_env (Inr example_config)
     (example_server 200 ''{"code":"abc","status":"noexist"}'')\<close>
  let ?fl = "example_flags\<lparr>failNoexistArg := True\<rparr>"
  let ?req = \<open>example_request ''POST'' ''https://s.example/api/delete'' ''{"code":"abc"}''\<close>
  have sent: "CallDo ?req \<in> set (events (main ?env ?fl CmdDelete))"
    by code_simp
  have answer: \<open>client_Do ?env ?req
      = Inr \<lparr>StatusCode = 200, Body = Inr ''{"code":"abc","status":"noexist"}''\<rparr>\<close>
    by (simp add: example_env_def example_server_def)
  have decoded: \<open>Unmarshal_DeleteResponse ''{"code":"abc","status":"noexist"}''
      \<lparr>Code_r = [], Status = []\<rparr> = Inr \<lparr>Code_r = ''abc'', Status = ''noexist''\<rparr>\<close>
    by code_simp
  have flag: "failNoexistArg ?fl"
    by (simp add: example_flags_def)
  show ?thesis
    using rm_exit_code [OF sent answer _ _ decoded] flag by simp
qed

text \<open>
  C1, as the program has it. A run of \<^verbatim>\<open>shorten\<close> that gets a response with status 409
  writes nothing on the standard output; it writes the line \<^verbatim>\<open>conflict\<close> on the
  standard error (\<^verbatim>\<open>errPrintf\<close>), exits with code \<open>-1\<close>, which is not zero, and
  never calls \<^verbatim>\<open>json.Unmarshal\<close> on a response body.
\<close>

theorem shorten_409:
  assumes "CallDo req \<in> set (events (main env fl CmdShorten))"
    and "client_Do env req = Inr resp" and "StatusCode resp = 409"
  shows "stdout_of (events (main env fl CmdShorten)) = []
         \<and> Stderr ''conflict\<newline>'' [] \<in> set (stderr_of (events (main env fl CmdShorten)))
         \<and> exit_code (main env fl CmdShorten) = - 1
         \<and> exit_code (main env fl CmdShorten) \<noteq> 0
         \<and> CallUnmarshal b \<notin> set (events (main env fl CmdShorten))"
proof -
  let ?D = "doRequest env fl ''POST'' ShortenEndpoint
     (Marshal_ShortenRequest \<lparr>Url = url_String (shortenUrlArg fl),
        Shortcode = shortcodeArg fl, Meta = metaArg fl\<rparr>)
     Unmarshal_ShortenResponse \<lparr>ShortUrl = []\<rparr>"
  have d: "CallDo req \<in> set (fst ?D)"
    using assms(1) by (rule main_Do_shorten)
  have r: "snd ?D = Inr (409, \<lparr>ShortUrl = []\<rparr>)"
    using doRequest_not200(1) [OF d assms(2)] assms(3) by simp
  have u: "CallUnmarshal b \<notin> set (fst ?D)"
    using doRequest_not200(2) [OF d assms(2)] assms(3) by simp
  have s: "stdout_of (fst ?D) = []"
    by (rule doRequest_stdout)
  show ?thesis
    using r s u
    by (simp add: events_def exit_code_def main_def shorten_def Let_def fst_seq snd_seq
        stderr_of_def on_stderr_def)
qed

theorem shorten_409_witness:
  "CallDo (example_request ''POST'' ''https://s.example/api/shorten'' ''{\"url\":\"http://a.com\"}'')
     \<in> set (events (main (example_env (Inr example_config) (example_server 409 ''taken''))
                example_flags CmdShorten))
   \<and> stdout_of (events (main (example_env (Inr example_config) (example_server 409 ''taken''))
                example_flags CmdShorten)) = []
   \<and> Stderr ''conflict\<newline>'' [] \<in> set (stderr_of (events (main (example_env (Inr example_config)
                (example_server 409 ''taken'')) example_flags CmdShorten)))
   \<and> exit_code (main (example_env (Inr example_config) (example_server 409 ''taken''))
                example_flags CmdShorten) = - 1
   \<and> CallUnmarshal ''taken'' \<notin> set (events (main (example_env (Inr example_config)
                (example_server 409 ''taken'')) example_flags CmdShorten))"
proof -
  let ?env = "example_env (Inr example_config) (example_server 409 ''taken'')"
  let ?req = "example_request ''POST'' ''https://s.example/api/shorten'' ''{\"url\":\"http://a.com\"}''"
  have sent: "CallDo ?req \<in> set (events (main ?env example_flags CmdShorten))"
    by code_simp
  have answer: "client_Do ?env ?req = Inr \<lparr>StatusCode = 409, Body = Inr ''taken''\<rparr>"
    by (simp add: example_env_def example_server_def)
  show ?thesis
    using shorten_409 [OF sent answer, of "''taken''"] sent by simp
qed

text \<open>
  The claim C1 itself asks for \<^verbatim>\<open>conflict\<close> on the standard output. In this run the
  server answers 409 and the standard output does not contain the word.
\<close>

theorem shorten_409_stdout_counterexample:
  "CallDo (example_request ''POST'' ''https://s.example/api/shorten'' ''{\"url\":\"http://a.com\"}'')
     \<in> set (events (main (example_env (Inr example_config) (example_server 409 ''taken''))
                example_flags CmdShorten))
   \<and> client_Do (example_env (Inr example_config) (example_server 409 ''taken''))
        (example_request ''POST'' ''https://s.example/api/shorten'' ''{\"url\":\"http://a.com\"}'')
      = Inr \<lparr>StatusCode = 409, Body = Inr ''taken''\<rparr>
   \<and> \<not> contains (stdout_of (events (main (example_env (Inr example_config)
         (example_server 409 ''taken'')) example_flags CmdShorten))) ''conflict''"
  by code_simp

subsection \<open>The debug flag\<close>

lemma serverDetails_debug:
  "snd (serverDetails env (fl\<lparr>debugFlag := b\<rparr>)) = snd (serverDetails env fl)"
  by (auto simp: serverDetails_def fst_seq snd_seq split: sum.splits option.splits prod.splits)

lemma doRequest_debug:
  "snd (doRequest env (fl\<lparr>debugFlag := b\<rparr>) m ep mar un r) = snd (doRequest env fl m ep mar un r)"
  by (auto simp: doRequest_def fst_seq snd_seq serverDetails_debug split: sum.splits option.splits prod.splits)

lemma shorten_debug:
  "snd (shorten env (fl\<lparr>debugFlag := b\<rparr>)) = snd (shorten env fl)"
  "stdout_of (fst (shorten env (fl\<lparr>debugFlag := b\<rparr>))) = stdout_of (fst (shorten env fl))"
  by (auto simp: shorten_def Let_def fst_seq snd_seq doRequest_debug doRequest_stdout split: sum.splits option.splits prod.splits)

lemma rm_debug:
  "snd (rm env (fl\<lparr>debugFlag := b\<rparr>)) = snd (rm env fl)"
  "stdout_of (fst (rm env (fl\<lparr>debugFlag := b\<rparr>))) = stdout_of (fst (rm env fl))"
  by (auto simp: rm_def Let_def fst_seq snd_seq doRequest_debug doRequest_stdout split: sum.splits option.splits prod.splits)

lemma meta_debug:
  "snd (meta env (fl\<lparr>debugFlag := b\<rparr>)) = snd (meta env fl)"
  "stdout_of (fst (meta env (fl\<lparr>debugFlag := b\<rparr>))) = stdout_of (fst (meta env fl))"
  by (auto simp: meta_def Let_def fst_seq snd_seq doRequest_debug doRequest_stdout split: sum.splits option.splits prod.splits)

lemma serverDetails_debug_events:
  "filter (\<lambda>e. \<not> on_stderr e) (fst (serverDetails env (fl\<lparr>debugFlag := b\<rparr>)))
     = filter (\<lambda>e. \<not> on_stderr e) (fst (serverDetails env fl))"
  by (auto simp: serverDetails_def fst_seq snd_seq
      split: sum.splits option.splits prod.splits)

lemma doRequest_debug_events:
  "filter (\<lambda>e. \<not> on_stderr e) (fst (doRequest env (fl\<lparr>debugFlag := b\<rparr>) m ep mar un r))
     = filter (\<lambda>e. \<not> on_stderr e) (fst (doRequest env fl m ep mar un r))"
  by (auto simp: doRequest_def fst_seq snd_seq serverDetails_debug
      serverDetails_debug_events split: sum.splits option.splits prod.splits)

lemma handler_debug_events:
  "filter (\<lambda>e. \<not> on_stderr e) (fst (shorten env (fl\<lparr>debugFlag := b\<rparr>)))
     = filter (\<lambda>e. \<not> on_stderr e) (fst (shorten env fl))"
  "filter (\<lambda>e. \<not> on_stderr e) (fst (rm env (fl\<lparr>debugFlag := b\<rparr>)))
     = filter (\<lambda>e. \<not> on_stderr e) (fst (rm env fl))"
  "filter (\<lambda>e. \<not> on_stderr e) (fst (meta env (fl\<lparr>debugFlag := b\<rparr>)))
     = filter (\<lambda>e. \<not> on_stderr e) (fst (meta env fl))"
  by (auto simp: shorten_def rm_def meta_def Let_def fst_seq snd_seq doRequest_debug
      doRequest_debug_events split: sum.splits option.splits prod.splits)

text \<open>
  C9. Two runs of any command in the same environment whose flags differ at most in
  \<^verbatim>\<open>--debug\<close> write the same text on the standard output and exit with the same code;
  more, all their events other than those on the standard error are the same, so they
  send the same request. What \<^verbatim>\<open>debug\<close> writes is one call of \<^verbatim>\<open>fmt.Fprintf\<close> on
  the standard error when the flag is set, and nothing otherwise.
\<close>

theorem debug_independent:
  "stdout_of (events (main env (fl\<lparr>debugFlag := b\<rparr>) cmd)) = stdout_of (events (main env fl cmd))
   \<and> exit_code (main env (fl\<lparr>debugFlag := b\<rparr>) cmd) = exit_code (main env fl cmd)
   \<and> filter (\<lambda>e. \<not> on_stderr e) (events (main env (fl\<lparr>debugFlag := b\<rparr>) cmd))
       = filter (\<lambda>e. \<not> on_stderr e) (events (main env fl cmd))
   \<and> events (debug fl fmat objs)
       = (if debugFlag fl then [Stderr (fmat @ ''\<newline>'') [DSlice objs]] else [])"
  by (cases cmd)
    (simp_all add: events_def exit_code_def main_def fst_seq snd_seq
      shorten_debug rm_debug meta_debug handler_debug_events)

theorem debug_independent_witness:
  "stdout_of (events (main (example_env (Inr example_config) (example_server 200 ''meta''))
       (example_flags\<lparr>debugFlag := True\<rparr>) CmdMeta))
     = stdout_of (events (main (example_env (Inr example_config) (example_server 200 ''meta''))
       example_flags CmdMeta))
   \<and> exit_code (main (example_env (Inr example_config) (example_server 200 ''meta''))
       (example_flags\<lparr>debugFlag := True\<rparr>) CmdMeta) = 0
   \<and> events (debug (example_flags\<lparr>debugFlag := True\<rparr>) ''rm: %s'' [DStr ''abc''])
       = [Stderr ''rm: %s\<newline>'' [DSlice [DStr ''abc'']]]"
proof -
  have quiet: "(example_flags\<lparr>debugFlag := True\<rparr>)\<lparr>debugFlag := False\<rparr> = example_flags"
    by (simp add: example_flags_def)
  have code: "exit_code (main (example_env (Inr example_config) (example_server 200 ''meta''))
       example_flags CmdMeta) = 0"
    by code_simp
  show ?thesis
    using debug_independent [where env = "example_env (Inr example_config) (example_server 200 ''meta'')"
        and fl = "example_flags\<lparr>debugFlag := True\<rparr>" and b = False and cmd = CmdMeta
        and fmat = "''rm: %s''" and objs = "[DStr ''abc'']"]
      code
    by (simp add: quiet)
qed

subsection \<open>The configuration\<close>

text \<open>
  C2, as the program has it. When the configuration file is read and decodes to
  \<open>conf\<close> (every member the file does not give is the empty default), the key of the
  effective configuration is the flag \<^verbatim>\<open>--apikey\<close> if that is not the empty string and
  the key of the file otherwise, and the server is the text of the flag \<^verbatim>\<open>--server\<close>
  whenever the flag was given (its pointer is not \<^verbatim>\<open>nil\<close>), also when that text is
  empty, and the server of the file otherwise.
\<close>

theorem serverDetails_precedence:
  assumes "user_Current env = Inr home"
    and "ReadFile env (filepath_Join env home ''.pare.json'') = Inr content"
    and "Unmarshal_Config content \<lparr>APIKey = [], Server = []\<rparr> = Inr conf"
  shows "snd (serverDetails env fl)
           = Inr \<lparr>APIKey = (if apiKeyFlag fl \<noteq> [] then apiKeyFlag fl else APIKey conf),
                  Server = (case serverFlag fl of Some u \<Rightarrow> url_String u | None \<Rightarrow> Server conf)\<rparr>"
  using assms by (simp add: serverDetails_def snd_seq)

theorem serverDetails_precedence_witness:
  \<open>Unmarshal_Config ''{"Server":"https://s.example"}'' \<lparr>APIKey = [], Server = []\<rparr>
      = Inr \<lparr>APIKey = [], Server = ''https://s.example''\<rparr>
   \<and> snd (serverDetails (example_env (Inr ''{"Server":"https://s.example"}'') (example_server 200 []))
        (example_flags\<lparr>apiKeyFlag := ''k2''\<rparr>))
      = Inr \<lparr>APIKey = ''k2'', Server = ''https://s.example''\<rparr>
   \<and> snd (serverDetails (example_env (Inr ''{"Server":"https://s.example"}'') (example_server 200 []))
        (example_flags\<lparr>serverFlag := Some (URL ''http://other'')\<rparr>))
      = Inr \<lparr>APIKey = [], Server = ''http://other''\<rparr>\<close>
proof -
  let ?env = \<open>example_env (Inr ''{"Server":"https://s.example"}'') (example_server 200 [])\<close>
  have home: "user_Current ?env = Inr ''/home/u''"
    by (simp add: example_env_def)
  have read: \<open>ReadFile ?env (filepath_Join ?env ''/home/u'' ''.pare.json'')
      = Inr ''{"Server":"https://s.example"}''\<close>
    by (simp add: example_env_def)
  have conf: \<open>Unmarshal_Config ''{"Server":"https://s.example"}'' \<lparr>APIKey = [], Server = []\<rparr>
      = Inr \<lparr>APIKey = [], Server = ''https://s.example''\<rparr>\<close>
    by code_simp
  show ?thesis
    using serverDetails_precedence [OF home read conf, of "example_flags\<lparr>apiKeyFlag := ''k2''\<rparr>"]
      serverDetails_precedence [OF home read conf,
        of "example_flags\<lparr>serverFlag := Some (URL ''http://other'')\<rparr>"] conf
    by (simp add: example_flags_def)
qed

text \<open>
  The claim C2 itself lets a flag override only when it is given and not empty, for both
  flags. A \<^verbatim>\<open>--server\<close> flag with an empty URL is given, its text is empty, and it
  overrides the server of the file all the same.
\<close>

theorem serverDetails_empty_server_flag_counterexample:
  "serverFlag (example_flags\<lparr>serverFlag := Some (URL [])\<rparr>) = Some (URL [])
   \<and> url_String (URL []) = []
   \<and> Unmarshal_Config example_config \<lparr>APIKey = [], Server = []\<rparr>
       = Inr \<lparr>APIKey = ''k1'', Server = ''https://s.example''\<rparr>
   \<and> snd (serverDetails (example_env (Inr example_config) (example_server 200 []))
        (example_flags\<lparr>serverFlag := Some (URL [])\<rparr>))
       = Inr \<lparr>APIKey = ''k1'', Server = []\<rparr>"
  by code_simp

text \<open>
  C7. When the home directory is known and the configuration file does not exist,
  \<^verbatim>\<open>serverDetails\<close> is not an error: it returns the empty defaults overlaid with the
  flags, and writes nothing but its debug line, and that only under \<^verbatim>\<open>--debug\<close>. When
  the file is read and is not JSON, the error is reported on the standard error and every
  command exits with code 1, before any request is sent and with nothing on the standard
  output.
\<close>

theorem config_file_missing_or_malformed:
  assumes "user_Current env = Inr home"
  shows "(ReadFile env (filepath_Join env home ''.pare.json'') = Inl err \<and> os_IsNotExist err \<longrightarrow>
            serverDetails env fl
              = ((if debugFlag fl
                  then [Stderr ''~/.pare.json doesn't exist; ignoring.\<newline>'' [DSlice []]] else []),
                 Inr \<lparr>APIKey = apiKeyFlag fl,
                      Server = (case serverFlag fl of Some u \<Rightarrow> url_String u | None \<Rightarrow> [])\<rparr>))
       \<and> (ReadFile env (filepath_Join env home ''.pare.json'') = Inr content \<and> json_parse content = None \<longrightarrow>
            serverDetails env fl = ([KingpinError ''error parsing ~/.pare.json'' SyntaxError], Inl 1)
            \<and> KingpinError ''error parsing ~/.pare.json'' SyntaxError
                 \<in> set (stderr_of (events (main env fl cmd)))
            \<and> stdout_of (events (main env fl cmd)) = []
            \<and> requests_of (events (main env fl cmd)) = []
            \<and> exit_code (main env fl cmd) = 1)"
proof (intro conjI impI)
  assume "ReadFile env (filepath_Join env home ''.pare.json'') = Inl err \<and> os_IsNotExist err"
  then show "serverDetails env fl
              = ((if debugFlag fl
                  then [Stderr ''~/.pare.json doesn't exist; ignoring.\<newline>'' [DSlice []]] else []),
                 Inr \<lparr>APIKey = apiKeyFlag fl,
                      Server = (case serverFlag fl of Some u \<Rightarrow> url_String u | None \<Rightarrow> [])\<rparr>)"
    using assms
    by (auto simp: serverDetails_def seq_def ret_def debug_def errPrintf_def emit_def)
next
  assume a: "ReadFile env (filepath_Join env home ''.pare.json'') = Inr content \<and> json_parse content = None"
  then have sd: "serverDetails env fl = ([KingpinError ''error parsing ~/.pare.json'' SyntaxError], Inl 1)"
    using assms
    by (simp add: serverDetails_def seq_def Unmarshal_Config_def unmarshal_struct_def
        FatalIfError_def emit_def os_Exit_def)
  then show "serverDetails env fl = ([KingpinError ''error parsing ~/.pare.json'' SyntaxError], Inl 1)" .
  have dr: "doRequest env fl m ep mar un r
      = ([KingpinError ''error parsing ~/.pare.json'' SyntaxError], Inl 1)" for m ep mar and un :: "string \<Rightarrow> 'r \<Rightarrow> error + 'r" and r
    by (simp add: doRequest_def sd seq_def)
  show "KingpinError ''error parsing ~/.pare.json'' SyntaxError
                 \<in> set (stderr_of (events (main env fl cmd)))"
    by (cases cmd)
      (simp_all add: events_def main_def shorten_def rm_def meta_def Let_def dr fst_seq snd_seq
        stderr_of_def on_stderr_def)
  show "stdout_of (events (main env fl cmd)) = []"
    by (cases cmd)
      (simp_all add: events_def main_def shorten_def rm_def meta_def Let_def dr fst_seq snd_seq)
  show "requests_of (events (main env fl cmd)) = []"
    by (cases cmd)
      (simp_all add: events_def main_def shorten_def rm_def meta_def Let_def dr fst_seq snd_seq)
  show "exit_code (main env fl cmd) = 1"
    by (cases cmd)
      (simp_all add: exit_code_def main_def shorten_def rm_def meta_def Let_def dr fst_seq snd_seq)
qed

theorem config_file_missing_or_malformed_witness:
  "os_IsNotExist ErrNotExist
   \<and> serverDetails (example_env (Inl ErrNotExist) (example_server 200 [])) example_flags
       = ([], Inr \<lparr>APIKey = [], Server = []\<rparr>)
   \<and> json_parse ''{oops'' = None
   \<and> serverDetails (example_env (Inr ''{oops'') (example_server 200 [])) example_flags
       = ([KingpinError ''error parsing ~/.pare.json'' SyntaxError], Inl 1)
   \<and> exit_code (main (example_env (Inr ''{oops'') (example_server 200 [])) example_flags
        CmdShorten) = 1"
proof -
  let ?missing = "example_env (Inl ErrNotExist) (example_server 200 [])"
  let ?broken = "example_env (Inr ''{oops'') (example_server 200 [])"
  have home: "user_Current ?missing = Inr ''/home/u''" "user_Current ?broken = Inr ''/home/u''"
    by (simp_all add: example_env_def)
  have absent: "ReadFile ?missing (filepath_Join ?missing ''/home/u'' ''.pare.json'') = Inl ErrNotExist
      \<and> os_IsNotExist ErrNotExist"
    by (simp add: example_env_def os_IsNotExist_def)
  have bad: "ReadFile ?broken (filepath_Join ?broken ''/home/u'' ''.pare.json'') = Inr ''{oops''
      \<and> json_parse ''{oops'' = None"
    by code_simp
  show ?thesis
    using config_file_missing_or_malformed [OF home(1), where err = ErrNotExist and fl = example_flags]
      config_file_missing_or_malformed [OF home(2), where content = "''{oops''" and fl = example_flags
        and cmd = CmdShorten]
      absent bad
    by (simp add: example_flags_def)
qed

subsection \<open>The request of \<^verbatim>\<open>shorten\<close>\<close>



text \<open>
  C3. The scenario from end to end: the configuration file gives the key \<^verbatim>\<open>k1\<close> and the
  server \<^verbatim>\<open>https://s.example\<close>, the command line is \<^verbatim>\<open>pare shorten http://a.com\<close>
  with no other flag than possibly \<^verbatim>\<open>--debug\<close>, and the server answers the request
  below with status 200 and a short URL. Then that request is the one request sent, the
  standard output is the line with the short URL, and the exit code is 0.
\<close>

theorem shorten_end_to_end:
  assumes "user_Current env = Inr home"
    and \<open>ReadFile env (filepath_Join env home ''.pare.json'')
           = Inr ''{"APIKey":"k1","Server":"https://s.example"}''\<close>
    and "serverFlag fl = None" and "apiKeyFlag fl = []"
    and "shortcodeArg fl = []" and "metaArg fl = []"
    and "shortenUrlArg fl = URL ''http://a.com''"
    and "NewRequest_error env ''POST'' ''https://s.example/api/shorten'' = None"
    and \<open>client_Do env
           \<lparr>Method = ''POST'', RequestURL = ''https://s.example/api/shorten'',
            Header = [(''Accept'', [''application/json'']),
                      (''Content-Type'', [''application/json'']),
                      (''X-API-Key'', [''k1'']),
                      (''User-Agent'', [''Pare (Go net/http)''])],
            RequestBody = ''{"url":"http://a.com"}'', Close = True\<rparr>
           = Inr \<lparr>StatusCode = 200, Body = Inr ''{"short_url":"https://s.example/abc"}''\<rparr>\<close>
  shows \<open>requests_of (events (main env fl CmdShorten))
           = [\<lparr>Method = ''POST'', RequestURL = ''https://s.example/api/shorten'',
               Header = [(''Accept'', [''application/json'']),
                         (''Content-Type'', [''application/json'']),
                         (''X-API-Key'', [''k1'']),
                         (''User-Agent'', [''Pare (Go net/http)''])],
               RequestBody = ''{"url":"http://a.com"}'', Close = True\<rparr>]
         \<and> stdout_of (events (main env fl CmdShorten)) = ''https://s.example/abc\<newline>''
         \<and> exit_code (main env fl CmdShorten) = 0\<close>
proof -
  have conf: \<open>Unmarshal_Config ''{"APIKey":"k1","Server":"https://s.example"}''
      \<lparr>APIKey = [], Server = []\<rparr> = Inr \<lparr>APIKey = ''k1'', Server = ''https://s.example''\<rparr>\<close>
    by code_simp
  have body: \<open>Marshal_ShortenRequest \<lparr>Url = ''http://a.com'', Shortcode = [], Meta = []\<rparr>
      = Inr ''{"url":"http://a.com"}''\<close>
    by code_simp
  have reply: \<open>Unmarshal_ShortenResponse ''{"short_url":"https://s.example/abc"}''
      \<lparr>ShortUrl = []\<rparr> = Inr \<lparr>ShortUrl = ''https://s.example/abc''\<rparr>\<close>
    by code_simp
  have sd: "snd (serverDetails env fl) = Inr \<lparr>APIKey = ''k1'', Server = ''https://s.example''\<rparr>"
    using serverDetails_from_file [OF assms(1,2) conf, of fl] assms(3,4) by simp
  show ?thesis
    using assms sd body reply
    by (simp add: events_def exit_code_def main_def shorten_def doRequest_def makeRequest_def
        Let_def fst_seq snd_seq ShortenEndpoint_def serverDetails_stdout serverDetails_requests)
qed

theorem shorten_end_to_end_witness:
  \<open>requests_of (events (main (example_env (Inr example_config)
        (example_server 200 ''{"short_url":"https://s.example/abc"}'')) example_flags CmdShorten))
     = [example_request ''POST'' ''https://s.example/api/shorten'' ''{"url":"http://a.com"}'']
   \<and> stdout_of (events (main (example_env (Inr example_config)
        (example_server 200 ''{"short_url":"https://s.example/abc"}'')) example_flags CmdShorten))
     = ''https://s.example/abc\<newline>''
   \<and> exit_code (main (example_env (Inr example_config)
        (example_server 200 ''{"short_url":"https://s.example/abc"}'')) example_flags CmdShorten) = 0\<close>
proof -
  let ?env = \<open>example_env (Inr example_config)
      (example_server 200 ''{"short_url":"https://s.example/abc"}'')\<close>
  have home: "user_Current ?env = Inr ''/home/u''"
    by (simp add: example_env_def)
  have config: \<open>ReadFile ?env (filepath_Join ?env ''/home/u'' ''.pare.json'')
      = Inr ''{"APIKey":"k1","Server":"https://s.example"}''\<close>
    by (simp add: example_env_def example_config_def)
  have flags: "serverFlag example_flags = None" "apiKeyFlag example_flags = []"
    "shortcodeArg example_flags = []" "metaArg example_flags = []"
    "shortenUrlArg example_flags = URL ''http://a.com''"
    by (simp_all add: example_flags_def)
  have build: "NewRequest_error ?env ''POST'' ''https://s.example/api/shorten'' = None"
    by (simp add: example_env_def)
  have answer: \<open>client_Do ?env
       \<lparr>Method = ''POST'', RequestURL = ''https://s.example/api/shorten'',
        Header = [(''Accept'', [''application/json'']),
                  (''Content-Type'', [''application/json'']),
                  (''X-API-Key'', [''k1'']),
                  (''User-Agent'', [''Pare (Go net/http)''])],
        RequestBody = ''{"url":"http://a.com"}'', Close = True\<rparr>
       = Inr \<lparr>StatusCode = 200, Body = Inr ''{"short_url":"https://s.example/abc"}''\<rparr>\<close>
    by (simp add: example_env_def example_server_def)
  show ?thesis
    using shorten_end_to_end [OF home config flags build answer]
    by (simp add: example_request_def)
qed

subsection \<open>Encoding a request and decoding it again\<close>

text \<open>
  C8, as the program has it. The request with URL \<^verbatim>\<open>http://x\<close> and empty code and
  metadata is encoded as an object with the one member \<^verbatim>\<open>url\<close>: in the text both
  optional members are absent. Decoding that text gives the request back, and in it the
  code and the metadata are the empty string: the members of the struct are strings, which
  have no other value for "not given". With the earlier declaration, where the members
  are pointers, a pointer to the empty string is written as the empty string and comes
  back as a pointer to the empty string; only a \<^verbatim>\<open>nil\<close> pointer, written \<^verbatim>\<open>null\<close>,
  comes back as \<^verbatim>\<open>nil\<close>.
\<close>

theorem ShortenRequest_round_trip:
  \<open>Marshal_ShortenRequest \<lparr>Url = ''http://x'', Shortcode = [], Meta = []\<rparr>
     = Inr ''{"url":"http://x"}''
   \<and> json_parse ''{"url":"http://x"}'' = Some (JObject [(''url'', JString ''http://x'')])
   \<and> Unmarshal_ShortenRequest ''{"url":"http://x"}'' \<lparr>Url = [], Shortcode = [], Meta = []\<rparr>
     = Inr \<lparr>Url = ''http://x'', Shortcode = [], Meta = []\<rparr>
   \<and> Marshal_ShortenRequest_v0 \<lparr>Url_v0 = ''http://x'', Shortcode_v0 = Some [], Meta_v0 = Some []\<rparr>
     = Inr ''{"url":"http://x","code":"","meta":""}''
   \<and> Unmarshal_ShortenRequest_v0 ''{"url":"http://x","code":"","meta":""}''
       \<lparr>Url_v0 = [], Shortcode_v0 = None, Meta_v0 = None\<rparr>
     = Inr \<lparr>Url_v0 = ''http://x'', Shortcode_v0 = Some [], Meta_v0 = Some []\<rparr>
   \<and> Marshal_ShortenRequest_v0 \<lparr>Url_v0 = ''http://x'', Shortcode_v0 = None, Meta_v0 = None\<rparr>
     = Inr ''{"url":"http://x","code":null,"meta":null}''
   \<and> Unmarshal_ShortenRequest_v0 ''{"url":"http://x","code":null,"meta":null}''
       \<lparr>Url_v0 = [], Shortcode_v0 = None, Meta_v0 = None\<rparr>
     = Inr \<lparr>Url_v0 = ''http://x'', Shortcode_v0 = None, Meta_v0 = None\<rparr>\<close>
  by code_simp

text \<open>
  The claim C8 itself asks for members that are absent and not the empty string after the
  round trip. They are the empty string.
\<close>

theorem ShortenRequest_round_trip_counterexample:
  \<open>Marshal_ShortenRequest \<lparr>Url = ''http://x'', Shortcode = [], Meta = []\<rparr>
     = Inr ''{"url":"http://x"}''
   \<and> Unmarshal_ShortenRequest ''{"url":"http://x"}'' \<lparr>Url = [], Shortcode = [], Meta = []\<rparr>
     = Inr \<lparr>Url = ''http://x'', Shortcode = [], Meta = []\<rparr>
   \<and> Shortcode \<lparr>Url = ''http://x'', Shortcode = [], Meta = []\<rparr> = []
   \<and> Meta \<lparr>Url = ''http://x'', Shortcode = [], Meta = []\<rparr> = []\<close>
  by code_simp

end
